theory Spec2Isabelle
  imports Main
begin

section \<open>Python strings\<close>

text \<open>
  The program is the script \<^verbatim>\<open>gmane.py\<close>. Its texts are Python \<^verbatim>\<open>str\<close> values;
  the model writes them as \<^typ>\<open>string\<close>, one \<^typ>\<open>char\<close> per code point, which
  covers the code points below 256. The character classes below are those of
  Python 3 on that range.
\<close>

definition isspace :: "char \<Rightarrow> bool" where
  \<comment> \<open>\<^verbatim>\<open>str.isspace\<close> and the class \<^verbatim>\<open>\s\<close> of \<^verbatim>\<open>re\<close> on a \<^verbatim>\<open>str\<close> pattern\<close>
  "isspace c = ((of_char c :: nat) \<in> {9, 10, 11, 12, 13, 28, 29, 30, 31, 32, 133, 160})"

definition isdigit :: "char \<Rightarrow> bool" where
  \<comment> \<open>the class \<^verbatim>\<open>\d\<close> of \<^verbatim>\<open>re\<close>: the decimal digits\<close>
  "isdigit c = (48 \<le> (of_char c :: nat) \<and> (of_char c :: nat) \<le> 57)"

definition lower_char :: "char \<Rightarrow> char" where
  "lower_char c =
     (let n = (of_char c :: nat)
      in if (65 \<le> n \<and> n \<le> 90) \<or> (192 \<le> n \<and> n \<le> 222 \<and> n \<noteq> 215)
         then char_of (n + 32) else c)"

definition lower :: "string \<Rightarrow> string" where
  \<comment> \<open>\<^verbatim>\<open>s.lower()\<close>\<close>
  "lower s = map lower_char s"

definition strip :: "string \<Rightarrow> string" where
  \<comment> \<open>\<^verbatim>\<open>s.strip()\<close>: white space removed at both ends\<close>
  "strip s = rev (dropWhile isspace (rev (dropWhile isspace s)))"

definition replace_lt :: "string \<Rightarrow> string" where
  \<comment> \<open>\<^verbatim>\<open>s.replace("<", "")\<close>\<close>
  "replace_lt s = filter (\<lambda>c. c \<noteq> CHR ''<'') s"

primrec startswith :: "string \<Rightarrow> string \<Rightarrow> bool" where
  \<comment> \<open>\<^verbatim>\<open>s.startswith(p)\<close>, written \<open>startswith p s\<close>\<close>
  "startswith [] s = True"
| "startswith (p # ps) s = (case s of [] \<Rightarrow> False | x # xs \<Rightarrow> x = p \<and> startswith ps xs)"

fun str_find :: "string \<Rightarrow> string \<Rightarrow> int" where
  \<comment> \<open>\<^verbatim>\<open>s.find(sub)\<close>, written \<open>str_find sub s\<close>: the lowest index, or -1\<close>
  "str_find sub [] = (if startswith sub [] then 0 else - 1)"
| "str_find sub (x # xs) =
     (if startswith sub (x # xs) then 0
      else (let r = str_find sub xs in if r < 0 then - 1 else r + 1))"

definition digit_char :: "nat \<Rightarrow> char" where
  "digit_char d = char_of (48 + d)"

fun str_nat :: "nat \<Rightarrow> string" where
  "str_nat n = (if n < 10 then [digit_char n] else str_nat (n div 10) @ [digit_char (n mod 10)])"

declare str_nat.simps [simp del]

definition str_int :: "int \<Rightarrow> string" where
  \<comment> \<open>\<^verbatim>\<open>str(i)\<close> of a Python integer\<close>
  "str_int i = (if i < 0 then CHR ''-'' # str_nat (nat (- i)) else str_nat (nat i))"

section \<open>The regular expressions of the script\<close>

text \<open>
  The four patterns of the script use single characters, the classes \<^verbatim>\<open>.\<close>,
  \<^verbatim>\<open>\S\<close> and \<^verbatim>\<open>\D\<close>, the greedy repetitions \<^verbatim>\<open>*\<close> and \<^verbatim>\<open>+\<close> of a class, and one
  group each. A pattern is the list of its items, and matching is the backtracking search
  of \<^verbatim>\<open>re\<close>: a greedy repetition takes as many characters as it can and gives them back
  one at a time while the rest of the pattern fails.
\<close>

datatype cls = Lit char | Dot | NonSpace | NonDigit

fun cls_ok :: "cls \<Rightarrow> char \<Rightarrow> bool" where
  "cls_ok (Lit a) c = (c = a)"
| "cls_ok Dot c = (c \<noteq> CHR 0x0A)"
| "cls_ok NonSpace c = (\<not> isspace c)"
| "cls_ok NonDigit c = (\<not> isdigit c)"

datatype item = One cls | Star cls | Plus cls | GOpen | GClose

fun star :: "cls \<Rightarrow> (string \<Rightarrow> 'a option) \<Rightarrow> string \<Rightarrow> 'a option" where
  "star c k [] = k []"
| "star c k (x # xs) =
     (if cls_ok c x
      then (case star c k xs of Some r \<Rightarrow> Some r | None \<Rightarrow> k (x # xs))
      else k (x # xs))"

text \<open>
  \<open>rmatch p s go gc\<close> matches the pattern \<open>p\<close> at the start of \<open>s\<close>; \<open>go\<close> and \<open>gc\<close> are
  the inputs that remained when the group opened and closed. The result is the text of
  the group and the input left after the match.
\<close>

primrec rmatch :: "item list \<Rightarrow> string \<Rightarrow> string \<Rightarrow> string \<Rightarrow> (string \<times> string) option" where
  "rmatch [] s go gc = Some (take (length go - length gc) go, s)"
| "rmatch (i # p) s go gc =
     (case i of
        One c \<Rightarrow> (case s of [] \<Rightarrow> None
                   | x # xs \<Rightarrow> if cls_ok c x then rmatch p xs go gc else None)
      | Star c \<Rightarrow> star c (\<lambda>s'. rmatch p s' go gc) s
      | Plus c \<Rightarrow> (case s of [] \<Rightarrow> None
                    | x # xs \<Rightarrow> if cls_ok c x then star c (\<lambda>s'. rmatch p s' go gc) xs else None)
      | GOpen \<Rightarrow> rmatch p s s gc
      | GClose \<Rightarrow> rmatch p s go s)"

text \<open>
  \<^verbatim>\<open>re.findall(p, s)\<close> for a pattern with one group: the group of every match, from left
  to right, the search going on where the last match ended (one character further after
  an empty match).
\<close>

function findall :: "item list \<Rightarrow> string \<Rightarrow> string list" where
  "findall p [] = (case rmatch p [] [] [] of None \<Rightarrow> [] | Some (g, r) \<Rightarrow> [g])"
| "findall p (x # xs) =
     (case rmatch p (x # xs) [] [] of
        None \<Rightarrow> findall p xs
      | Some (g, r) \<Rightarrow> g # findall p (if length r < length (x # xs) then r else xs))"
  by pat_completeness auto
termination
  by (relation "measure (\<lambda>(p, s). length s)") auto

definition lits :: "string \<Rightarrow> item list" where
  "lits s = map (\<lambda>c. One (Lit c)) s"

definition pat_from_angle :: "item list" where
  \<comment> \<open>\<^verbatim>\<open>'\nFrom: .* <(\S+@\S+)>\n'\<close>\<close>
  "pat_from_angle =
     One (Lit (CHR 0x0A)) # lits ''From: '' @ [Star Dot] @ lits '' <''
       @ [GOpen, Plus NonSpace, One (Lit (CHR ''@'')), Plus NonSpace, GClose]
       @ lits ''>'' @ [One (Lit (CHR 0x0A))]"

definition pat_from_bare :: "item list" where
  \<comment> \<open>\<^verbatim>\<open>'\nFrom: (\S+@\S+)\n'\<close>\<close>
  "pat_from_bare =
     One (Lit (CHR 0x0A)) # lits ''From: ''
       @ [GOpen, Plus NonSpace, One (Lit (CHR ''@'')), Plus NonSpace, GClose]
       @ [One (Lit (CHR 0x0A))]"

definition pat_date :: "item list" where
  \<comment> \<open>\<^verbatim>\<open>'\Date: .*, (.*)\n'\<close>: the pattern starts with the class \<^verbatim>\<open>\D\<close>\<close>
  "pat_date =
     One NonDigit # lits ''ate: '' @ [Star Dot] @ lits '', ''
       @ [GOpen, Star Dot, GClose, One (Lit (CHR 0x0A))]"

definition pat_subject :: "item list" where
  \<comment> \<open>\<^verbatim>\<open>'\Subject: (.*)\n'\<close>: the pattern starts with the class \<^verbatim>\<open>\S\<close>\<close>
  "pat_subject =
     One NonSpace # lits ''ubject: '' @ [GOpen, Star Dot, GClose, One (Lit (CHR 0x0A))]"

section \<open>The messages table\<close>

text \<open>
  A row of the table \<^verbatim>\<open>messages\<close>, with the six columns of the \<^verbatim>\<open>CREATE TABLE\<close>
  statement. The columns \<^verbatim>\<open>email\<close>, \<^verbatim>\<open>sent_at\<close> and \<^verbatim>\<open>subject\<close> hold \<^verbatim>\<open>None\<close> when
  the script found no value. The table is the list of its rows, in the order of
  insertion: a table may hold the same row twice.
\<close>

record message =
  m_id :: int
  m_email :: "string option"
  m_sent_at :: "string option"
  m_subject :: "string option"
  m_headers :: string
  m_body :: string

text \<open>
  The unique indexes of the table, each given by the relation "same key". The statement
  \<^verbatim>\<open>CREATE TABLE IF NOT EXISTS messages (id SERIAL, email TEXT, sent_at TIMESTAMPTZ,
  subject TEXT, headers TEXT, body TEXT)\<close> declares no \<^verbatim>\<open>PRIMARY KEY\<close> and no \<^verbatim>\<open>UNIQUE\<close>
  column (\<^verbatim>\<open>SERIAL\<close> is an integer column with a sequence as default), so there is none.
\<close>

definition messages_unique :: "(message \<Rightarrow> message \<Rightarrow> bool) list" where
  "messages_unique = []"

definition conflicts :: "message list \<Rightarrow> message \<Rightarrow> bool" where
  "conflicts rows new = (\<exists>same \<in> set messages_unique. \<exists>r \<in> set rows. same r new)"

definition insert_message :: "message list \<Rightarrow> message \<Rightarrow> message list" where
  \<comment> \<open>\<^verbatim>\<open>INSERT INTO Messages (...) VALUES (...) ON CONFLICT DO NOTHING\<close>: the row is
      dropped when it violates a unique index and added otherwise\<close>
  "insert_message rows new = (if conflicts rows new then rows else rows @ [new])"

definition rows_with_id :: "message list \<Rightarrow> int \<Rightarrow> message list" where
  \<comment> \<open>\<^verbatim>\<open>SELECT id FROM messages WHERE id=%s\<close>\<close>
  "rows_with_id rows i = filter (\<lambda>r. m_id r = i) rows"

definition fetchone :: "'a list \<Rightarrow> 'a option" where
  \<comment> \<open>\<^verbatim>\<open>cur.fetchone()\<close>: the first row of the result, \<^verbatim>\<open>None\<close> when there is none\<close>
  "fetchone rs = (case rs of [] \<Rightarrow> None | r # _ \<Rightarrow> Some r)"


section \<open>Picking up where the last run stopped\<close>

datatype 'a outcome = Raises | Returns 'a



section \<open>The world around the loop\<close>

text \<open>
  What \<^verbatim>\<open>urlopen\<close>, \<^verbatim>\<open>read\<close>, \<^verbatim>\<open>decode\<close> and \<^verbatim>\<open>getcode\<close> do for one address: the user
  interrupts (\<^verbatim>\<open>KeyboardInterrupt\<close>), or one of the calls raises another exception, or
  the document arrives with its status code and text.
\<close>

datatype fetched = Interrupted | Failed | Response int string

text \<open>
  What the operator answers at the prompt \<^verbatim>\<open>How many messages:\<close>: an empty line, or a
  line that \<^verbatim>\<open>int\<close> reads as a number, or a line at which \<^verbatim>\<open>int\<close> raises
  \<^verbatim>\<open>ValueError\<close>.
\<close>

datatype answer = Blank | Number int | Garbage

text \<open>
  The environment of a run: the archive, and the two date parsers. \<open>primary\<close> is
  \<^verbatim>\<open>parser.parse(...).isoformat()\<close> of \<^verbatim>\<open>dateutil\<close>, \<^verbatim>\<open>None\<close> when it raises;
  \<open>secondary\<close> is \<^verbatim>\<open>datecompat.parsemaildate\<close>, a module that is not part of the
  script: it raises or returns a value, which may be \<^verbatim>\<open>None\<close>.
\<close>

record env =
  urlopen :: "string \<Rightarrow> fetched"
  primary :: "string \<Rightarrow> string option"
  secondary :: "string \<Rightarrow> string option outcome"

definition parsemaildate :: "env \<Rightarrow> string \<Rightarrow> string \<Rightarrow> string option outcome" where
  \<comment> \<open>lines 24 to 30; \<open>tdate\<close> is the global variable the body reads, \<open>md\<close> the parameter\<close>
  "parsemaildate e tdate md =
     (case primary e tdate of
        Some test_at \<Rightarrow> Returns (Some test_at)
      | None \<Rightarrow> secondary e md)"

definition baseurl :: string where
  "baseurl = ''http://mbox.dr-chuck.net/sakai.devel/''"

definition url_of :: "int \<Rightarrow> string" where
  \<comment> \<open>\<^verbatim>\<open>baseurl + str(start) + '/' + str(start + 1)\<close>\<close>
  "url_of start = baseurl @ str_int start @ ''/'' @ str_int (start + 1)"

section \<open>The loop\<close>

text \<open>
  The variables of the loop, the table, the answers the operator has still to give, and
  the requests made to the archive, in their order: the identifier and the address asked.
  The script also commits the transaction (before each prompt and when \<^verbatim>\<open>count\<close> is a
  multiple of 50) and sleeps for a second (when it is a multiple of 100); neither changes
  a variable or a row, and the model leaves both out.
\<close>

record state =
  start :: int
  many :: int
  count :: int
  fail :: int
  table :: "message list"
  answers :: "answer list"
  requests :: "(int \<times> string) list"

datatype control = Continue | Break | Uncaught

definition failure :: "state \<Rightarrow> control \<times> state" where
  \<comment> \<open>\<^verbatim>\<open>fail = fail + 1; if fail > 5 : break; continue\<close>\<close>
  "failure s =
     (let s' = s\<lparr>fail := fail s + 1\<rparr>
      in (if fail s' > 5 then Break else Continue, s'))"

definition extract_email :: "string \<Rightarrow> string option" where
  \<comment> \<open>lines 123 to 134\<close>
  "extract_email hdr =
     (let x = findall pat_from_angle hdr
      in if length x = 1 then Some (replace_lt (lower (strip (x ! 0))))
         else (let x = findall pat_from_bare hdr
               in if length x = 1 then Some (replace_lt (lower (strip (x ! 0))))
                  else None))"

definition extract_subject :: "string \<Rightarrow> string option" where
  \<comment> \<open>lines 150 to 152\<close>
  "extract_subject hdr =
     (let z = findall pat_subject hdr
      in if length z = 1 then Some (lower (strip (z ! 0))) else None)"

definition extract_date :: "env \<Rightarrow> string \<Rightarrow> string option outcome" where
  \<comment> \<open>lines 136 to 148: \<open>Raises\<close> is the \<^verbatim>\<open>except\<close> branch\<close>
  "extract_date e hdr =
     (let y = findall pat_date hdr
      in if length y = 1
         then (let tdate = take 26 (y ! 0) in parsemaildate e tdate tdate)
         else Returns None)"

definition header_of :: "string \<Rightarrow> string" where
  \<comment> \<open>\<^verbatim>\<open>text[:pos]\<close> for \<^verbatim>\<open>pos = text.find("\n\n")\<close>\<close>
  "header_of text = take (nat (str_find [CHR 0x0A, CHR 0x0A] text)) text"

definition process :: "env \<Rightarrow> state \<Rightarrow> string \<Rightarrow> control \<times> state" where
  \<comment> \<open>lines 102 to 161, for the text of a document that arrived with status 200\<close>
  "process e s text =
     (let s = s\<lparr>count := count s + 1\<rparr>
      in if \<not> startswith ''From '' text then failure s
         else (let pos = str_find [CHR 0x0A, CHR 0x0A] text
               in if pos > 0
                  then (let hdr = take (nat pos) text;
                            body = drop (nat (pos + 2)) text;
                            email = extract_email hdr
                        in case extract_date e hdr of
                             Raises \<Rightarrow> failure s
                           | Returns sent_at \<Rightarrow>
                               (let subject = extract_subject hdr;
                                    s = s\<lparr>fail := 0\<rparr>
                                in (Continue,
                                    s\<lparr>table := insert_message (table s)
                                       \<lparr>m_id = start s, m_email = email, m_sent_at = sent_at,
                                        m_subject = subject, m_headers = hdr, m_body = body\<rparr>\<rparr>)))
                  else failure s))"

text \<open>
  Lines 72 to 100. The table answers every query: \<^verbatim>\<open>cur.fetchone()\<close> returns the first
  row with the identifier, or \<^verbatim>\<open>None\<close>. The \<^verbatim>\<open>except\<close> branch of line 77 is for a
  database driver that fails, which the table of the model never does.
\<close>

definition attempt :: "env \<Rightarrow> state \<Rightarrow> control \<times> state" where
  "attempt e s =
     (let s = s\<lparr>start := start s + 1\<rparr>
      in case fetchone (rows_with_id (table s) (start s)) of
           Some row \<Rightarrow> (Continue, s)
         | None \<Rightarrow>
             (let s = s\<lparr>many := many s - 1\<rparr>;
                  url = url_of (start s);
                  s = s\<lparr>requests := requests s @ [(start s, url)]\<rparr>
              in case urlopen e url of
                   Interrupted \<Rightarrow> (Break, s)
                 | Failed \<Rightarrow> failure s
                 | Response code text \<Rightarrow>
                     if code \<noteq> 200 then (Break, s) else process e s text))"

definition asked :: "state \<Rightarrow> state" where
  \<comment> \<open>the variables after lines 72 to 81, when the next identifier is not stored\<close>
  "asked s =
     s\<lparr>start := start s + 1, many := many s - 1,
       requests := requests s @ [(start s + 1, url_of (start s + 1))]\<rparr>"

definition iteration :: "env \<Rightarrow> state \<Rightarrow> control \<times> state" where
  \<comment> \<open>one turn of \<^verbatim>\<open>while True\<close>: lines 66 to 70, then \<open>attempt\<close>\<close>
  "iteration e s =
     (if many s < 1
      then (case answers s of
              [] \<Rightarrow> (Uncaught, s)
            | Blank # rest \<Rightarrow> (Break, s\<lparr>answers := rest\<rparr>)
            | Garbage # rest \<Rightarrow> (Uncaught, s\<lparr>answers := rest\<rparr>)
            | Number n # rest \<Rightarrow> attempt e (s\<lparr>many := n, answers := rest\<rparr>))
      else attempt e s)"

text \<open>
  The loop, for at most \<open>n\<close> turns: it stops at the first turn that does not end in
  \<open>Continue\<close>.
\<close>

fun turns :: "nat \<Rightarrow> env \<Rightarrow> state \<Rightarrow> control \<times> state" where
  "turns 0 e s = (Continue, s)"
| "turns (Suc n) e s =
     (case iteration e s of
        (Continue, s') \<Rightarrow> turns n e s'
      | (c, s') \<Rightarrow> (c, s'))"

definition init :: "int \<Rightarrow> message list \<Rightarrow> answer list \<Rightarrow> state" where
  \<comment> \<open>lines 60 to 64: the loop starts with \<^verbatim>\<open>many = 0\<close>, \<^verbatim>\<open>count = 0\<close>, \<^verbatim>\<open>fail = 0\<close>\<close>
  "init st rows ans =
     \<lparr>start = st, many = 0, count = 0, fail = 0, table = rows, answers = ans, requests = []\<rparr>"


section \<open>Sample data\<close>

definition nl :: char where
  "nl = CHR 0x0A"

definition stored :: "int \<Rightarrow> message" where
  \<comment> \<open>a row that an earlier run left in the table\<close>
  "stored i =
     \<lparr>m_id = i, m_email = None, m_sent_at = None, m_subject = None,
      m_headers = ''From old'', m_body = ''''\<rparr>"

definition no_dates :: "string \<Rightarrow> string option" where
  \<comment> \<open>a primary parser that raises on every text\<close>
  "no_dates d = None"

definition no_dates2 :: "string \<Rightarrow> string option outcome" where
  \<comment> \<open>a secondary parser that raises on every text\<close>
  "no_dates2 d = Raises"

definition archive :: "(string \<Rightarrow> fetched) \<Rightarrow> env" where
  \<comment> \<open>an archive, with date parsers that read nothing\<close>
  "archive f = \<lparr>urlopen = f, primary = no_dates, secondary = no_dates2\<rparr>"



definition dead_archive :: env where
  \<comment> \<open>every request raises\<close>
  "dead_archive = archive (\<lambda>url. Failed)"

definition msg_full :: string where
  \<comment> \<open>a message whose headers go on after the lines the script reads\<close>
  "msg_full =
     ''From news@example.org Sat Jan  5 09:14:16 2008'' @ [nl]
     @ ''From: Jo Doe <Jo.Doe@Example.ORG>'' @ [nl]
     @ ''Subject:  Hello World '' @ [nl]
     @ ''To: list@example.org'' @ [nl, nl]
     @ ''body text''"

definition msg_from_last :: string where
  \<comment> \<open>a message whose last header line is the \<^verbatim>\<open>From:\<close> line\<close>
  "msg_from_last =
     ''From news@example.org Sat Jan  5 09:14:16 2008'' @ [nl]
     @ ''From: Jo Doe <Jo.Doe@Example.ORG>'' @ [nl, nl]
     @ ''body text''"

definition msg_subject_last :: string where
  \<comment> \<open>a message whose last header line is the \<^verbatim>\<open>Subject:\<close> line\<close>
  "msg_subject_last =
     ''From news@example.org Sat Jan  5 09:14:16 2008'' @ [nl]
     @ ''Subject: Hello World'' @ [nl, nl]
     @ ''body text''"

definition msg_xubject :: string where
  \<comment> \<open>a message with no \<^verbatim>\<open>Subject:\<close> line\<close>
  "msg_xubject =
     ''From news@example.org Sat Jan  5 09:14:16 2008'' @ [nl]
     @ ''Xubject: Hello World'' @ [nl]
     @ ''To: list@example.org'' @ [nl, nl]
     @ ''body text''"



definition serving :: "int \<Rightarrow> string \<Rightarrow> string \<Rightarrow> fetched" where
  \<comment> \<open>an archive that holds one message, and raises for every other address\<close>
  "serving i text url = (if url = url_of i then Response 200 text else Failed)"




section \<open>The steps of a turn\<close>

lemma insert_message_appends: "insert_message rows new = rows @ [new]"
  by (simp add: insert_message_def conflicts_def messages_unique_def)

lemma fetchone_None: "fetchone rs = None \<longleftrightarrow> rs = []"
  by (cases rs) (simp_all add: fetchone_def)

lemma failure_eq:
  "failure s = (if 5 < fail s + 1 then Break else Continue, s\<lparr>fail := fail s + 1\<rparr>)"
  by (simp add: failure_def Let_def)


lemma attempt_not_stored:
  assumes "rows_with_id (table s) (start s + 1) = []"
  shows "attempt e s =
     (case urlopen e (url_of (start s + 1)) of
        Interrupted \<Rightarrow> (Break, asked s)
      | Failed \<Rightarrow> failure (asked s)
      | Response code text \<Rightarrow> if code \<noteq> 200 then (Break, asked s) else process e (asked s) text)"
  using assms
  by (simp add: attempt_def asked_def fetchone_def Let_def split: fetched.splits)


section \<open>Resuming and addressing\<close>






section \<open>One row for each identifier\<close>

text \<open>
  Claim C1 says that inserting a row whose identifier is already in the table does
  nothing, so that an identifier inserted twice has one row. The \<^verbatim>\<open>INSERT\<close> of the
  script does end in \<^verbatim>\<open>ON CONFLICT DO NOTHING\<close>, but the table it creates has no unique
  index, so no insertion conflicts: on a table that holds a row for identifier 1, the
  insertion of a second row for identifier 1 adds it, and the table holds two.
\<close>

theorem insert_same_id_twice:
  "rows_with_id (insert_message [stored 1] (stored 1 \<lparr>m_subject := Some ''again''\<rparr>)) 1 =
     [stored 1, stored 1 \<lparr>m_subject := Some ''again''\<rparr>] \<and>
   length (rows_with_id (insert_message (insert_message [] (stored 1)) (stored 1)) 1) = 2"
  by (simp add: insert_message_appends rows_with_id_def stored_def)


section \<open>Identifiers that are stored\<close>














section \<open>A request that fails, and a status that is not 200\<close>





section \<open>Texts that are not messages\<close>

lemma startswith_iff: "startswith p s \<longleftrightarrow> (\<exists>post. s = p @ post)"
proof (induction p arbitrary: s)
  case Nil
  show ?case by simp
next
  case (Cons a p)
  show ?case by (cases s) (auto simp add: Cons.IH)
qed

lemma str_find_negative: "str_find sub s < 0 \<longleftrightarrow> (\<forall>pre post. s \<noteq> pre @ sub @ post)"
proof (induction s)
  case Nil
  show ?case by (cases sub) simp_all
next
  case (Cons x xs)
  show ?case
  proof (cases "startswith sub (x # xs)")
    case True
    then obtain post where "x # xs = [] @ sub @ post"
      by (auto simp add: startswith_iff)
    then have "\<not> (\<forall>pre post. x # xs \<noteq> pre @ sub @ post)" by blast
    with True show ?thesis by simp
  next
    case False
    have "(\<exists>pre post. x # xs = pre @ sub @ post) \<longleftrightarrow> (\<exists>pre post. xs = pre @ sub @ post)"
    proof
      assume "\<exists>pre post. x # xs = pre @ sub @ post"
      then obtain pre post where eq: "x # xs = pre @ sub @ post" by blast
      show "\<exists>pre post. xs = pre @ sub @ post"
      proof (cases pre)
        case Nil
        with eq False show ?thesis by (simp add: startswith_iff)
      next
        case (Cons y pre')
        with eq have "xs = pre' @ sub @ post" by simp
        then show ?thesis by blast
      qed
    next
      assume "\<exists>pre post. xs = pre @ sub @ post"
      then obtain pre post where "xs = pre @ sub @ post" by blast
      then have "x # xs = (x # pre) @ sub @ post" by simp
      then show "\<exists>pre post. x # xs = pre @ sub @ post" by blast
    qed
    then have occ: "(\<forall>pre post. xs \<noteq> pre @ sub @ post) \<longleftrightarrow>
        (\<forall>pre post. x # xs \<noteq> pre @ sub @ post)"
      by blast
    from False have "str_find sub (x # xs) =
        (if str_find sub xs < 0 then - 1 else str_find sub xs + 1)"
      by (simp add: Let_def)
    then have "str_find sub (x # xs) < 0 \<longleftrightarrow> str_find sub xs < 0"
      by auto
    also have "\<dots> \<longleftrightarrow> (\<forall>pre post. xs \<noteq> pre @ sub @ post)"
      by (rule Cons.IH)
    also note occ
    finally show ?thesis .
  qed
qed

text \<open>
  Claim C8 says that a text without the marker \<^verbatim>\<open>From \<close> at its start, or without a
  blank line, is skipped and the loop goes on. It is skipped, but the loop goes on only
  while the failure counter stays at 5 or below: when five requests in a row have failed
  and the sixth brings a text without the marker, the run ends there, with four messages
  of the budget of ten left.
\<close>

theorem sixth_failure_is_a_text_without_marker:
  "fst (turns 7 (archive (serving 6 ''<html>moved</html>'')) (init 0 [] [Number 10])) = Break \<and>
   map fst (requests (snd (turns 7 (archive (serving 6 ''<html>moved</html>''))
       (init 0 [] [Number 10])))) = [1, 2, 3, 4, 5, 6] \<and>
   many (snd (turns 7 (archive (serving 6 ''<html>moved</html>'')) (init 0 [] [Number 10]))) = 4 \<and>
   fail (snd (turns 7 (archive (serving 6 ''<html>moved</html>'')) (init 0 [] [Number 10]))) = 6"
  by code_simp

text \<open>
  Claim C8, amended. For a text that does not start with \<^verbatim>\<open>From \<close>, and for a text with
  no blank line in it, the script raises nothing and stores nothing: it counts the
  document, adds one to the failure counter, and goes on with the next identifier,
  unless the counter is now above 5, in which case the run ends.
\<close>

theorem text_without_marker_or_boundary:
  "\<not> startswith ''From '' doc \<or> (\<forall>pre post. doc \<noteq> pre @ [CHR 0x0A, CHR 0x0A] @ post) \<longrightarrow>
     process e s doc =
       (if 5 < fail s + 1 then Break else Continue,
        s\<lparr>count := count s + 1, fail := fail s + 1\<rparr>)"
proof
  assume "\<not> startswith ''From '' doc \<or> (\<forall>pre post. doc \<noteq> pre @ [CHR 0x0A, CHR 0x0A] @ post)"
  then have "\<not> startswith ''From '' doc \<or> \<not> 0 < str_find [CHR 0x0A, CHR 0x0A] doc"
    using str_find_negative [of "[CHR 0x0A, CHR 0x0A]" doc] by auto
  then show "process e s doc =
       (if 5 < fail s + 1 then Break else Continue,
        s\<lparr>count := count s + 1, fail := fail s + 1\<rparr>)"
    by (auto simp add: process_def failure_eq Let_def)
qed

theorem text_without_marker_or_boundary_witness:
  "process dead_archive ((init 3 [stored 1] []) \<lparr>many := 1, fail := 2\<rparr>) ''<html>moved</html>'' =
     (Continue, (init 3 [stored 1] []) \<lparr>many := 1, fail := 3, count := 1\<rparr>) \<and>
   process dead_archive ((init 3 [stored 1] []) \<lparr>many := 1, fail := 2\<rparr>) ''From me, no more'' =
     (Continue, (init 3 [stored 1] []) \<lparr>many := 1, fail := 3, count := 1\<rparr>)"
proof -
  let ?s = "(init 3 [stored 1] []) \<lparr>many := 1, fail := 2\<rparr>"
  have a: "\<not> startswith ''From '' ''<html>moved</html>''"
    by simp
  have "str_find [CHR 0x0A, CHR 0x0A] ''From me, no more'' < 0"
    by code_simp
  then have b: "\<forall>pre post. ''From me, no more'' \<noteq> pre @ [CHR 0x0A, CHR 0x0A] @ post"
    using str_find_negative [of "[CHR 0x0A, CHR 0x0A]" "''From me, no more''"] by blast
  from a text_without_marker_or_boundary [of "''<html>moved</html>''" dead_archive ?s]
  have 1: "process dead_archive ?s ''<html>moved</html>'' =
     (Continue, (init 3 [stored 1] []) \<lparr>many := 1, fail := 3, count := 1\<rparr>)"
    by (simp add: init_def)
  from b text_without_marker_or_boundary [of "''From me, no more''" dead_archive ?s]
  have 2: "process dead_archive ?s ''From me, no more'' =
     (Continue, (init 3 [stored 1] []) \<lparr>many := 1, fail := 3, count := 1\<rparr>)"
    by (simp add: init_def)
  from 1 2 show ?thesis by simp
qed


section \<open>The failure counter\<close>

lemma process_failures:
  assumes "\<not> startswith ''From '' doc \<or> str_find [CHR 0x0A, CHR 0x0A] doc \<le> 0 \<or>
    extract_date e (header_of doc) = Raises"
  shows "process e s doc = failure (s\<lparr>count := count s + 1\<rparr>)"
  using assms by (auto simp add: process_def header_of_def Let_def)

lemma process_success:
  assumes "startswith ''From '' doc" and "0 < str_find [CHR 0x0A, CHR 0x0A] doc"
    and "extract_date e (header_of doc) = Returns d"
  shows "process e s doc =
    (Continue,
     s\<lparr>count := count s + 1, fail := 0,
       table := table s @
         [\<lparr>m_id = start s, m_email = extract_email (header_of doc), m_sent_at = d,
           m_subject = extract_subject (header_of doc), m_headers = header_of doc,
           m_body = drop (nat (str_find [CHR 0x0A, CHR 0x0A] doc + 2)) doc\<rparr>]\<rparr>)"
  using assms by (simp add: process_def header_of_def insert_message_appends Let_def)

lemma dead_iteration:
  assumes "\<forall>u. urlopen e u = Failed" and "table s = []" and "1 \<le> many s"
  shows "iteration e s = failure (asked s)"
proof -
  from assms(3) have "iteration e s = attempt e s" by (simp add: iteration_def)
  moreover from assms(2) have "rows_with_id (table s) (start s + 1) = []"
    by (simp add: rows_with_id_def)
  ultimately show ?thesis using assms(1) by (simp add: attempt_not_stored)
qed

lemma dead_turns:
  assumes "\<forall>u. urlopen e u = Failed" and "table s = []"
    and "int k \<le> many s" and "fail s + int k \<le> 5"
  shows "fst (turns k e s) = Continue \<and> fail (snd (turns k e s)) = fail s + int k \<and>
    length (requests (snd (turns k e s))) = length (requests s) + k"
  using assms(2-)
proof (induction k arbitrary: s)
  case 0
  show ?case by simp
next
  case (Suc k)
  let ?s1 = "(asked s)\<lparr>fail := fail s + 1\<rparr>"
  from Suc.prems have "iteration e s = (Continue, ?s1)"
    using dead_iteration [OF assms(1), of s] by (simp add: failure_eq asked_def)
  then have t: "turns (Suc k) e s = turns k e ?s1" by simp
  from Suc.prems have "table ?s1 = []" "int k \<le> many ?s1" "fail ?s1 + int k \<le> 5"
    by (simp_all add: asked_def)
  from Suc.IH [OF this] show ?case
    unfolding t by (simp add: asked_def)
qed

lemma dead_turns_break:
  assumes "\<forall>u. urlopen e u = Failed" and "table s = []"
    and "int (Suc k) \<le> many s" and "fail s + int k = 5"
  shows "fst (turns (Suc k) e s) = Break \<and> fail (snd (turns (Suc k) e s)) = 6 \<and>
    length (requests (snd (turns (Suc k) e s))) = length (requests s) + Suc k"
  using assms(2-)
proof (induction k arbitrary: s)
  case 0
  then have "iteration e s = (Break, (asked s)\<lparr>fail := 6\<rparr>)"
    using dead_iteration [OF assms(1), of s] by (simp add: failure_eq asked_def)
  then show ?case by (simp add: asked_def)
next
  case (Suc k)
  let ?s1 = "(asked s)\<lparr>fail := fail s + 1\<rparr>"
  from Suc.prems have "iteration e s = (Continue, ?s1)"
    using dead_iteration [OF assms(1), of s] by (simp add: failure_eq asked_def)
  then have t: "turns (Suc (Suc k)) e s = turns (Suc k) e ?s1" by simp
  from Suc.prems have "table ?s1 = []" "int (Suc k) \<le> many ?s1" "fail ?s1 + int k = 5"
    by (simp_all add: asked_def)
  from Suc.IH [OF this] show ?case
    unfolding t by (simp add: asked_def)
qed

text \<open>
  Claim C3 says that five failed requests in a row end the run at the sixth attempt, with
  no sixth request needed. The script tests \<^verbatim>\<open>fail > 5\<close> after it has counted a failure:
  after five failed requests the counter is 5 and the loop goes on; the sixth attempt
  makes its request, and the run ends only if that one fails too. When the sixth request
  brings a message instead, the message is stored, the counter is back at 0 and the loop
  goes on.
\<close>

theorem five_failures_do_not_end_the_run:
  "fst (turns 5 dead_archive (init 0 [] [Number 10])) = Continue \<and>
   fail (snd (turns 5 dead_archive (init 0 [] [Number 10]))) = 5 \<and>
   map fst (requests (snd (turns 5 dead_archive (init 0 [] [Number 10])))) = [1, 2, 3, 4, 5] \<and>
   fst (turns 6 dead_archive (init 0 [] [Number 10])) = Break \<and>
   map fst (requests (snd (turns 6 dead_archive (init 0 [] [Number 10])))) = [1, 2, 3, 4, 5, 6] \<and>
   fst (turns 6 (archive (serving 6 msg_full)) (init 0 [] [Number 10])) = Continue \<and>
   fail (snd (turns 6 (archive (serving 6 msg_full)) (init 0 [] [Number 10]))) = 0 \<and>
   map m_id (table (snd (turns 6 (archive (serving 6 msg_full)) (init 0 [] [Number 10])))) = [6]"
  by code_simp

text \<open>
  Claim C3, amended. A failure adds one to the counter and ends the run when the counter
  is then above 5. A request that raises, a text without the marker or without a blank
  line after it, and a date that neither parser reads are failures; a message that is
  stored sets the counter to 0. So the run ends at the sixth failure in a row: when every
  request raises, five turns leave the counter at 5 and the loop going, with five requests
  made, and the sixth turn makes a sixth request and ends the run.
\<close>

theorem failures_count_and_the_sixth_ends_the_run:
  "failure s = (if 5 < fail s + 1 then Break else Continue, s\<lparr>fail := fail s + 1\<rparr>) \<and>
   (rows_with_id (table s) (start s + 1) = [] \<and> urlopen e (url_of (start s + 1)) = Failed \<longrightarrow>
      attempt e s = failure (asked s)) \<and>
   (\<not> startswith ''From '' doc \<or> str_find [CHR 0x0A, CHR 0x0A] doc \<le> 0 \<or>
    extract_date e (header_of doc) = Raises \<longrightarrow>
      process e s doc = failure (s\<lparr>count := count s + 1\<rparr>)) \<and>
   (startswith ''From '' doc \<and> 0 < str_find [CHR 0x0A, CHR 0x0A] doc \<and>
    extract_date e (header_of doc) = Returns d \<longrightarrow>
      fst (process e s doc) = Continue \<and> fail (snd (process e s doc)) = 0) \<and>
   ((\<forall>u. urlopen e u = Failed) \<and> table s = [] \<and> fail s = 0 \<and> 6 \<le> many s \<longrightarrow>
      fst (turns 5 e s) = Continue \<and> fail (snd (turns 5 e s)) = 5 \<and>
      length (requests (snd (turns 5 e s))) = length (requests s) + 5 \<and>
      fst (turns 6 e s) = Break \<and> fail (snd (turns 6 e s)) = 6 \<and>
      length (requests (snd (turns 6 e s))) = length (requests s) + 6)"
proof -
  have a: "attempt e s = failure (asked s)"
    if "rows_with_id (table s) (start s + 1) = [] \<and> urlopen e (url_of (start s + 1)) = Failed"
    using that by (simp add: attempt_not_stored)
  have b: "fst (process e s doc) = Continue \<and> fail (snd (process e s doc)) = 0"
    if "startswith ''From '' doc \<and> 0 < str_find [CHR 0x0A, CHR 0x0A] doc \<and>
      extract_date e (header_of doc) = Returns d"
    using that by (simp add: process_success)
  have c: "fst (turns 5 e s) = Continue \<and> fail (snd (turns 5 e s)) = 5 \<and>
      length (requests (snd (turns 5 e s))) = length (requests s) + 5 \<and>
      fst (turns 6 e s) = Break \<and> fail (snd (turns 6 e s)) = 6 \<and>
      length (requests (snd (turns 6 e s))) = length (requests s) + 6"
    if h: "(\<forall>u. urlopen e u = Failed) \<and> table s = [] \<and> fail s = 0 \<and> 6 \<le> many s"
  proof -
    from h have "fst (turns 5 e s) = Continue \<and> fail (snd (turns 5 e s)) = fail s + int 5 \<and>
        length (requests (snd (turns 5 e s))) = length (requests s) + 5"
      by (intro dead_turns) simp_all
    moreover from h have "fst (turns (Suc 5) e s) = Break \<and> fail (snd (turns (Suc 5) e s)) = 6 \<and>
        length (requests (snd (turns (Suc 5) e s))) = length (requests s) + Suc 5"
      by (intro dead_turns_break) simp_all
    moreover have "Suc 5 = 6" by simp
    ultimately show ?thesis using h by (simp del: turns.simps)
  qed
  from a b c process_failures [of doc e s] failure_eq [of s] show ?thesis
    by blast
qed

theorem failures_count_and_the_sixth_ends_the_run_witness:
  "fst (turns 5 dead_archive ((init 0 [] []) \<lparr>many := 8\<rparr>)) = Continue \<and>
   fail (snd (turns 5 dead_archive ((init 0 [] []) \<lparr>many := 8\<rparr>))) = 5 \<and>
   length (requests (snd (turns 5 dead_archive ((init 0 [] []) \<lparr>many := 8\<rparr>)))) = 5 \<and>
   fst (turns 6 dead_archive ((init 0 [] []) \<lparr>many := 8\<rparr>)) = Break \<and>
   fail (snd (turns 6 dead_archive ((init 0 [] []) \<lparr>many := 8\<rparr>))) = 6 \<and>
   length (requests (snd (turns 6 dead_archive ((init 0 [] []) \<lparr>many := 8\<rparr>)))) = 6 \<and>
   process dead_archive (init 4 [] []) ''no marker'' = failure ((init 4 [] []) \<lparr>count := 1\<rparr>) \<and>
   fail (snd (process dead_archive ((init 4 [] []) \<lparr>fail := 3\<rparr>) msg_full)) = 0"
proof -
  let ?s = "(init 0 [] []) \<lparr>many := 8\<rparr>"
  let ?t = "(init 4 [] []) \<lparr>fail := 3\<rparr>"
  have h: "(\<forall>u. urlopen dead_archive u = Failed) \<and> table ?s = [] \<and> fail ?s = 0 \<and> 6 \<le> many ?s"
    by (simp add: dead_archive_def archive_def init_def)
  have m: "\<not> startswith ''From '' ''no marker''"
    by simp
  have ok: "startswith ''From '' msg_full" "0 < str_find [CHR 0x0A, CHR 0x0A] msg_full"
    "extract_date dead_archive (header_of msg_full) = Returns None"
    by code_simp+
  from failures_count_and_the_sixth_ends_the_run [of ?s dead_archive "''no marker''" None] h m
  have 1: "fst (turns 5 dead_archive ?s) = Continue \<and> fail (snd (turns 5 dead_archive ?s)) = 5 \<and>
      length (requests (snd (turns 5 dead_archive ?s))) = length (requests ?s) + 5 \<and>
      fst (turns 6 dead_archive ?s) = Break \<and> fail (snd (turns 6 dead_archive ?s)) = 6 \<and>
      length (requests (snd (turns 6 dead_archive ?s))) = length (requests ?s) + 6"
    by blast
  from failures_count_and_the_sixth_ends_the_run [of "init 4 [] []" dead_archive "''no marker''" None] m
  have 2: "process dead_archive (init 4 [] []) ''no marker'' =
      failure ((init 4 [] []) \<lparr>count := count (init 4 [] []) + 1\<rparr>)"
    by blast
  from failures_count_and_the_sixth_ends_the_run [of ?t dead_archive msg_full None] ok
  have 3: "fail (snd (process dead_archive ?t msg_full)) = 0"
    by blast
  have r: "requests ?s = []" "count (init 4 [] []) = 0"
    by (simp_all add: init_def)
  from 1 2 3 show ?thesis
    by (simp add: r del: turns.simps)
qed


section \<open>The budget of a session\<close>













section \<open>The date of a message\<close>








section \<open>The sender of a message\<close>

lemma length_one_cases: "length xs = Suc 0 \<longleftrightarrow> (\<exists>a. xs = [a])"
  by (cases xs) auto

text \<open>
  The address is that of the pattern with angle brackets when it matches once, else that
  of the bare pattern when it matches once, else absent; it is stripped, put in lower
  case and freed of \<^verbatim>\<open><\<close>.
\<close>

lemma extract_email_cases:
  "extract_email hdr =
     (case findall pat_from_angle hdr of
        [a] \<Rightarrow> Some (replace_lt (lower (strip a)))
      | _ \<Rightarrow> (case findall pat_from_bare hdr of
                 [b] \<Rightarrow> Some (replace_lt (lower (strip b)))
               | _ \<Rightarrow> None))"
proof (cases "length (findall pat_from_angle hdr) = 1")
  case True
  then obtain a where "findall pat_from_angle hdr = [a]"
    by (auto simp add: length_one_cases)
  then show ?thesis by (simp add: extract_email_def)
next
  case False
  note angle = this
  show ?thesis
  proof (cases "length (findall pat_from_bare hdr) = 1")
    case True
    then obtain b where "findall pat_from_bare hdr = [b]"
      by (auto simp add: length_one_cases)
    with angle show ?thesis
      by (auto simp add: extract_email_def Let_def length_one_cases split: list.splits)
  next
    case False
    with angle show ?thesis
      by (auto simp add: extract_email_def Let_def length_one_cases split: list.splits)
  qed
qed

lemma replace_lt_no_lt: "CHR ''<'' \<notin> set (replace_lt s)"
  by (simp add: replace_lt_def)

text \<open>
  Claim C5 says that a message with a line \<^verbatim>\<open>From: Name <addr@host>\<close> is stored with
  the address in lower case. The script finds the line in \<open>msg_full\<close>, where another
  header line follows it. It does not find it in \<open>msg_from_last\<close>, where it is the last
  line of the header block: both patterns end with a newline, and the header block is the
  text before the blank line, without the newline that ends its last line. The message
  is stored with no sender.
\<close>

theorem from_line_last_in_header:
  "findall pat_from_angle (header_of msg_from_last) = [] \<and>
   findall pat_from_bare (header_of msg_from_last) = [] \<and>
   map m_email (table (snd (turns 1 (archive (serving 1 msg_from_last)) (init 0 [] [Number 1]))))
     = [None] \<and>
   map m_email (table (snd (turns 1 (archive (serving 1 msg_full)) (init 0 [] [Number 1]))))
     = [Some ''jo.doe@example.org'']"
  by code_simp


section \<open>The subject of a message\<close>

text \<open>
  The subject is the value of the pattern when it matches once, stripped and in lower
  case, and absent otherwise.
\<close>

lemma extract_subject_cases:
  "extract_subject hdr =
     (case findall pat_subject hdr of
        [z] \<Rightarrow> Some (lower (strip z))
      | _ \<Rightarrow> None)"
  by (auto simp add: extract_subject_def Let_def length_one_cases split: list.splits)

text \<open>
  Claim C6 says that the subject of a message is the value of its one \<^verbatim>\<open>Subject:\<close>
  line, and absent when there is no such line or more than one. The script finds the
  line in \<open>msg_full\<close>, where another header line follows it. In \<open>msg_subject_last\<close> the
  \<^verbatim>\<open>Subject:\<close> line is the last of the header block, which holds no newline after it
  for the pattern to match: the message is stored with no subject. In \<open>msg_xubject\<close>
  there is no \<^verbatim>\<open>Subject:\<close> line: the pattern starts with \<^verbatim>\<open>\S\<close>, which any character
  but white space matches, and the message is stored with the value of the line
  \<^verbatim>\<open>Xubject:\<close> as its subject.
\<close>

theorem subject_line_last_or_misspelt:
  "map m_subject (table (snd (turns 1 (archive (serving 1 msg_full)) (init 0 [] [Number 1]))))
     = [Some ''hello world''] \<and>
   findall pat_subject (header_of msg_subject_last) = [] \<and>
   map m_subject (table (snd (turns 1 (archive (serving 1 msg_subject_last)) (init 0 [] [Number 1]))))
     = [None] \<and>
   map m_subject (table (snd (turns 1 (archive (serving 1 msg_xubject)) (init 0 [] [Number 1]))))
     = [Some ''hello world'']"
  by code_simp


end
